theory Spec2Isabelle
  imports Complex_Main
begin

section \<open>Data model\<close>

text \<open>
  Monetary amounts are Python \<open>Decimal\<close> values in the source; they are modelled as exact
  rationals. The conversions to \<open>float\<close> where the service hands its figures to the API,
  and the rounding of the \<open>NUMERIC(10, 2)\<close> columns, are not modelled.
  Identifiers (UUIDs) are natural numbers, timestamps are seconds as integers.
\<close>

type_synonym uuid = nat
type_synonym money = rat
type_synonym datetime = int

subsection \<open>app/models/product.py: ProductVariant\<close>

record variant =
  v_id :: uuid
  v_sku :: string
  v_name :: string
  v_price :: money
  v_stock :: int
  v_is_active :: bool
  v_product_name :: "string option"
  v_product_sku :: "string option"

definition is_in_stock :: "variant \<Rightarrow> bool" where
  "is_in_stock v = (v_stock v > 0)"







subsection \<open>app/models/discount.py: Coupon\<close>

text \<open>
  Nullable columns are options. \<open>co_usages\<close> lists the \<open>user_id\<close> of every recorded
  usage of the coupon (the only field of a usage that \<open>is_valid\<close> reads).
\<close>

record coupon =
  co_id :: uuid
  co_code :: string
  co_discount_type :: string
  co_discount_value :: money
  co_minimum_amount :: "money option"
  co_maximum_discount :: "money option"
  co_usage_limit :: "int option"
  co_usage_limit_per_user :: int
  co_usage_count :: int
  co_valid_from :: "datetime option"
  co_valid_until :: "datetime option"
  co_is_active :: bool
  co_usages :: "uuid option list"

datatype coupon_error =
    Coupon_is_not_active
  | Coupon_is_not_yet_valid
  | Coupon_has_expired
  | Coupon_usage_limit_exceeded
  | Minimum_order_amount_required money
  | Already_used_maximum_times

text \<open>
  Python truthiness of the optional numbers the source tests with \<open>if x and ...\<close>:
  \<open>None\<close> and zero are both false.
\<close>

fun truthy_money :: "money option \<Rightarrow> bool" where
  "truthy_money None = False"
| "truthy_money (Some x) = (x \<noteq> 0)"

fun truthy_int :: "int option \<Rightarrow> bool" where
  "truthy_int None = False"
| "truthy_int (Some x) = (x \<noteq> 0)"

text \<open>
  \<open>is_valid\<close> returns the list of errors in the order the source appends them;
  the \<open>valid\<close> entry of the returned dictionary is \<open>errors = []\<close>.
  \<open>now\<close> is \<open>datetime.utcnow()\<close>.
\<close>

definition is_valid_errors ::
  "coupon \<Rightarrow> datetime \<Rightarrow> money option \<Rightarrow> uuid option \<Rightarrow> coupon_error list" where
  "is_valid_errors c now cart_total user_id =
     (if \<not> co_is_active c then [Coupon_is_not_active] else []) @
     (case co_valid_from c of
        Some t \<Rightarrow> if now < t then [Coupon_is_not_yet_valid] else []
      | None \<Rightarrow> []) @
     (case co_valid_until c of
        Some t \<Rightarrow> if now > t then [Coupon_has_expired] else []
      | None \<Rightarrow> []) @
     (if truthy_int (co_usage_limit c) \<and> co_usage_count c \<ge> the (co_usage_limit c)
      then [Coupon_usage_limit_exceeded] else []) @
     (if truthy_money (co_minimum_amount c) \<and> truthy_money cart_total
         \<and> the cart_total < the (co_minimum_amount c)
      then [Minimum_order_amount_required (the (co_minimum_amount c))] else []) @
     (if user_id \<noteq> None \<and> co_usage_limit_per_user c \<noteq> 0
      then (if int (length (filter (\<lambda>u. u = user_id) (co_usages c)))
               \<ge> co_usage_limit_per_user c
            then [Already_used_maximum_times] else [])
      else [])"

definition is_valid :: "coupon \<Rightarrow> datetime \<Rightarrow> money option \<Rightarrow> uuid option \<Rightarrow> bool" where
  "is_valid c now cart_total user_id = (is_valid_errors c now cart_total user_id = [])"

definition calculate_discount :: "coupon \<Rightarrow> money \<Rightarrow> money" where
  "calculate_discount c cart_total =
     (let discount =
            (if co_discount_type c = ''percentage'' then cart_total * (co_discount_value c / 100)
             else if co_discount_type c = ''fixed'' then co_discount_value c
             else if co_discount_type c = ''free_shipping'' then 0
             else 0);
          discount =
            (if truthy_money (co_maximum_discount c) \<and> discount > the (co_maximum_discount c)
             then the (co_maximum_discount c) else discount)
      in if discount > cart_total then cart_total else discount)"

text \<open>
  The discount as the specification words it: the base amount, capped at
  \<open>maximum_discount\<close> whenever that is set, then capped at the subtotal.
\<close>

definition spec_discount :: "coupon \<Rightarrow> money \<Rightarrow> money" where
  "spec_discount c subtotal =
     (let base = (if co_discount_type c = ''percentage''
                  then subtotal * co_discount_value c / 100
                  else co_discount_value c);
          capped = (case co_maximum_discount c of None \<Rightarrow> base | Some m \<Rightarrow> min base m)
      in min capped subtotal)"

text \<open>The cap that the code applies: a maximum of zero counts as no maximum.\<close>

definition code_discount_cap :: "money option \<Rightarrow> money \<Rightarrow> money" where
  "code_discount_cap m base =
     (case m of None \<Rightarrow> base | Some x \<Rightarrow> if x = 0 then base else min base x)"

subsection \<open>app/models/cart.py: Cart, CartItem\<close>

datatype cart_status = Active | Abandoned | Converted | Expired

record cart_item =
  ci_id :: uuid
  ci_variant_id :: uuid
  ci_quantity :: int
  ci_price :: money

text \<open>
  \<open>cart.metadata\<close> is the dictionary in which the cart service keeps the applied coupon;
  the service reads and writes the three keys below and no other. A key that is absent
  is \<open>None\<close>; the attribute itself may be missing or \<open>None\<close>.
\<close>

record coupon_meta =
  m_coupon_code :: "string option"
  m_coupon_id :: "uuid option"
  m_discount_amount :: "money option"


record cart =
  c_id :: uuid
  c_user_id :: "uuid option"
  c_session_id :: "string option"
  c_status :: cart_status
  c_expires_at :: "datetime option"
  c_items :: "cart_item list"
  c_metadata :: "coupon_meta option"

definition get_total :: "cart_item \<Rightarrow> money" where
  "get_total it = ci_price it * of_int (ci_quantity it)"

definition get_subtotal :: "cart \<Rightarrow> money" where
  "get_subtotal c = sum_list (map get_total (c_items c))"

definition get_total_quantity :: "cart \<Rightarrow> int" where
  "get_total_quantity c = sum_list (map ci_quantity (c_items c))"

definition is_empty :: "cart \<Rightarrow> bool" where
  "is_empty c = (length (c_items c) = 0)"

definition extend_expiration :: "cart \<Rightarrow> datetime \<Rightarrow> cart" where
  "extend_expiration c now = c\<lparr>c_expires_at := Some (now + 30 * 86400)\<rparr>"

definition mark_converted :: "cart \<Rightarrow> cart" where
  "mark_converted c = c\<lparr>c_status := Converted\<rparr>"

text \<open>Index of the first element that satisfies a predicate (a query's \<open>first()\<close>).\<close>

fun find_index :: "('a \<Rightarrow> bool) \<Rightarrow> 'a list \<Rightarrow> nat option" where
  "find_index P [] = None"
| "find_index P (x # xs) = (if P x then Some 0 else map_option Suc (find_index P xs))"

definition get_item_by_variant :: "cart \<Rightarrow> uuid \<Rightarrow> nat option" where
  "get_item_by_variant c variant_id = find_index (\<lambda>it. ci_variant_id it = variant_id) (c_items c)"


definition delete_nth :: "'a list \<Rightarrow> nat \<Rightarrow> 'a list" where
  "delete_nth xs k = take k xs @ drop (Suc k) xs"

definition remove_item :: "cart \<Rightarrow> uuid \<Rightarrow> cart \<times> bool" where
  "remove_item c variant_id =
     (case get_item_by_variant c variant_id of
        Some k \<Rightarrow> (c\<lparr>c_items := delete_nth (c_items c) k\<rparr>, True)
      | None \<Rightarrow> (c, False))"

definition update_item_quantity :: "cart \<Rightarrow> uuid \<Rightarrow> int \<Rightarrow> cart \<times> bool" where
  "update_item_quantity c variant_id quantity =
     (case get_item_by_variant c variant_id of
        Some k \<Rightarrow>
          (if quantity \<le> 0 then c\<lparr>c_items := delete_nth (c_items c) k\<rparr>
           else c\<lparr>c_items := (c_items c)[k := (c_items c ! k)\<lparr>ci_quantity := quantity\<rparr>]\<rparr>,
           True)
      | None \<Rightarrow> (c, False))"

definition clear :: "cart \<Rightarrow> cart" where
  "clear c = c\<lparr>c_items := []\<rparr>"

datatype validation_error =
    Cart_not_found_on_validation
  | No_longer_available string
  | Out_of_stock string
  | Only_units_of_available int string int

text \<open>
  \<open>validate_items\<close> returns the errors, the items after the prices of the valid ones were
  synchronised, and the list of updated items. An item whose variant row is missing makes
  the attribute access raise: the result is \<open>None\<close>.
\<close>

fun validate_items ::
  "variant list \<Rightarrow> cart_item list
     \<Rightarrow> (validation_error list \<times> cart_item list \<times> cart_item list) option" where
  "validate_items vs [] = Some ([], [], [])"
| "validate_items vs (it # its) =
     (case find (\<lambda>v. v_id v = ci_variant_id it) vs of
        None \<Rightarrow> None
      | Some v \<Rightarrow>
          (case validate_items vs its of
             None \<Rightarrow> None
           | Some (errors, its', updated) \<Rightarrow>
               if \<not> v_is_active v
                 then Some (No_longer_available (v_name v) # errors, it # its', updated)
               else if \<not> is_in_stock v
                 then Some (Out_of_stock (v_name v) # errors, it # its', updated)
               else if v_stock v < ci_quantity it
                 then Some (Only_units_of_available (v_stock v) (v_name v) (ci_quantity it)
                              # errors, it # its', updated)
               else if ci_price it \<noteq> v_price v
                 then Some (errors, it\<lparr>ci_price := v_price v\<rparr> # its',
                            it\<lparr>ci_price := v_price v\<rparr> # updated)
               else Some (errors, it # its', updated)))"

subsection \<open>app/models/order.py: Order, OrderItem\<close>

type_synonym address_snapshot = "string \<times> string option \<times> string \<times> string \<times> string \<times> string"

record address =
  a_id :: uuid
  a_user_id :: uuid
  a_fields :: address_snapshot

record order_item =
  oi_order_id :: uuid
  oi_variant_id :: uuid
  oi_quantity :: int
  oi_price :: money
  oi_total :: money
  oi_product_name :: string
  oi_product_sku :: string
  oi_variant_name :: string
  oi_variant_sku :: string

text \<open>
  The status columns are strings in the source. The entries of \<open>order_metadata\<close> that the
  modelled endpoints write are fields of their own.
\<close>

record order =
  o_id :: uuid
  o_user_id :: "uuid option"
  o_status :: string
  o_payment_status :: string
  o_subtotal :: money
  o_tax_amount :: money
  o_shipping_amount :: money
  o_discount_amount :: money
  o_total :: money
  o_shipping_address :: address_snapshot
  o_billing_address :: address_snapshot
  o_payment_method :: string
  o_notes :: "string option"
  o_items :: "order_item list"
  o_shipping_carrier :: "string option"
  o_tracking_number :: "string option"
  o_shipped_at :: "datetime option"
  o_delivered_at :: "datetime option"
  o_cancellation_reason :: "string option"
  o_refund :: "(money \<times> string) option"
  o_admin_notes :: "string option"
  o_updated_at :: "datetime option"

definition can_be_cancelled :: "order \<Rightarrow> bool" where
  "can_be_cancelled ord = (o_status ord \<in> set [''pending'', ''confirmed''])"

definition can_be_refunded :: "order \<Rightarrow> bool" where
  "can_be_refunded ord =
     (o_status ord \<in> set [''delivered'', ''shipped''] \<and> o_payment_status ord = ''captured'')"

subsection \<open>The database\<close>

text \<open>
  The tables the modelled endpoints touch; the state of the database is passed through
  every operation, and what an operation returns is the committed state (a rollback
  returns the state the transaction started from). A row is addressed by its position in
  its table, the items of a cart and of an order are kept with their owner.
  \<open>next_id\<close> stands for the generation of fresh identifiers. The event rows that the
  tracking helpers write (in a \<open>try\<close> of their own, after the commit) are left out.
\<close>

record store =
  variants :: "variant list"
  carts :: "cart list"
  coupons :: "coupon list"
  addresses :: "address list"
  orders :: "order list"
  next_id :: uuid

subsection \<open>app/services/cart_service.py: CartService\<close>

datatype service_error =
    Variant_not_found_or_unavailable
  | Only_units_available int
  | Unable_to_create_cart
  | Failed_to_add_item
  | Cart_not_found
  | Cart_item_not_found
  | Failed_to_update_cart_item
  | Invalid_coupon_code
  | Coupon_rejected "coupon_error list"

definition new_cart :: "store \<Rightarrow> datetime \<Rightarrow> uuid option \<Rightarrow> string option \<Rightarrow> cart" where
  "new_cart st now user_id session_id =
     \<lparr>c_id = next_id st, c_user_id = user_id, c_session_id = session_id, c_status = Active,
      c_expires_at = Some (now + 30 * 86400), c_items = [], c_metadata = None\<rparr>"

definition find_or_create ::
  "store \<Rightarrow> datetime \<Rightarrow> (cart \<Rightarrow> bool) \<Rightarrow> uuid option \<Rightarrow> string option \<Rightarrow> store \<times> nat option" where
  "find_or_create st now P user_id session_id =
     (case find_index P (carts st) of
        Some i \<Rightarrow> (st, Some i)
      | None \<Rightarrow>
          (st\<lparr>carts := carts st @ [new_cart st now user_id session_id],
              next_id := Suc (next_id st)\<rparr>,
           Some (length (carts st))))"

text \<open>
  \<open>get_or_create_cart\<close> returns the position of the cart; only a cart whose status is
  \<open>active\<close> is ever found, and a new one is created and committed when there is none.
\<close>

definition get_or_create_cart ::
  "store \<Rightarrow> datetime \<Rightarrow> uuid option \<Rightarrow> string option \<Rightarrow> store \<times> nat option" where
  "get_or_create_cart st now user_id session_id =
     (if user_id \<noteq> None
        then find_or_create st now (\<lambda>c. c_user_id c = user_id \<and> c_status c = Active)
               user_id session_id
      else if session_id \<noteq> None \<and> session_id \<noteq> Some []
        then find_or_create st now (\<lambda>c. c_session_id c = session_id \<and> c_status c = Active)
               user_id session_id
      else (st, None))"

text \<open>The active carts of a user, among which \<open>get_or_create_cart\<close> takes the first.\<close>

definition user_active_carts :: "store \<Rightarrow> uuid \<Rightarrow> cart list" where
  "user_active_carts st uid = filter (\<lambda>c. c_user_id c = Some uid \<and> c_status c = Active) (carts st)"

definition set_cart :: "store \<Rightarrow> nat \<Rightarrow> cart \<Rightarrow> store" where
  "set_cart st i c = st\<lparr>carts := (carts st)[i := c]\<rparr>"









text \<open>
  \<open>validate_cart\<close> returns the errors (the cart is valid when there are none) and the
  updated items; it commits the synchronised prices when some item was updated. \<open>None\<close>
  is the exception that escapes it when a variant row is missing.
\<close>

definition validate_cart ::
  "store \<Rightarrow> datetime \<Rightarrow> uuid option \<Rightarrow> string option
     \<Rightarrow> (store \<times> validation_error list \<times> cart_item list) option" where
  "validate_cart st now user_id session_id =
     (case get_or_create_cart st now user_id session_id of
        (st1, None) \<Rightarrow> Some (st1, [Cart_not_found_on_validation], [])
      | (st1, Some i) \<Rightarrow>
          (case validate_items (variants st1) (c_items (carts st1 ! i)) of
             None \<Rightarrow> None
           | Some (errors, its', updated) \<Rightarrow>
               Some (if updated \<noteq> [] then set_cart st1 i ((carts st1 ! i)\<lparr>c_items := its'\<rparr>)
                     else st1,
                     errors, updated)))"

text \<open>
  The totals of \<open>calculate_totals\<close> for the cart it found: \<open>stored_discount\<close> is the
  discount it reads from the metadata of the cart, \<open>cart_totals\<close> the body of the method
  after the lookup.
\<close>

record totals =
  t_subtotal :: money
  t_tax :: money
  t_shipping :: money
  t_discount :: money
  t_total :: money
  t_items_count :: "int option"

definition calculate_shipping :: "cart \<Rightarrow> uuid option \<Rightarrow> money" where
  "calculate_shipping c shipping_address_id =
     (let subtotal = get_subtotal c in
      if subtotal \<ge> 50 then 0 else 999 / 100)"

definition stored_discount :: "cart \<Rightarrow> money" where
  "stored_discount c =
     (case c_metadata c of
        None \<Rightarrow> 0
      | Some m \<Rightarrow> (case m_discount_amount m of None \<Rightarrow> 0 | Some d \<Rightarrow> d))"

definition cart_totals :: "cart \<Rightarrow> uuid option \<Rightarrow> totals" where
  "cart_totals c shipping_address_id =
     (if is_empty c
        then \<lparr>t_subtotal = 0, t_tax = 0, t_shipping = 0, t_discount = 0, t_total = 0,
              t_items_count = None\<rparr>
      else
        let subtotal = get_subtotal c;
            discount = stored_discount c;
            tax_rate = 8 / 100;
            tax = (subtotal - discount) * tax_rate;
            shipping = calculate_shipping c shipping_address_id;
            total = subtotal + tax + shipping - discount
        in \<lparr>t_subtotal = subtotal, t_tax = tax, t_shipping = shipping, t_discount = discount,
            t_total = total, t_items_count = Some (get_total_quantity c)\<rparr>)"

definition calculate_totals ::
  "store \<Rightarrow> datetime \<Rightarrow> uuid option \<Rightarrow> string option \<Rightarrow> uuid option
     \<Rightarrow> store \<times> (service_error + totals)" where
  "calculate_totals st now user_id session_id shipping_address_id =
     (case get_or_create_cart st now user_id session_id of
        (st1, None) \<Rightarrow> (st1, Inl Cart_not_found)
      | (st1, Some i) \<Rightarrow> (st1, Inr (cart_totals (carts st1 ! i) shipping_address_id)))"

subsection \<open>app/api/v1/orders.py: OrderList.post (checkout)\<close>

text \<open>
  The request body: an identifier field is missing (or empty), not a UUID, or a UUID;
  an absent or empty body is \<open>None\<close>. \<open>user_id\<close> is the identity of the token.
\<close>

datatype uuid_field = Missing | Malformed | Uuid uuid

record checkout_request =
  rq_shipping_address_id :: uuid_field
  rq_billing_address_id :: uuid_field
  rq_payment_method :: string
  rq_notes :: "string option"

datatype checkout_error =
    Request_body_required
  | Field_is_required string
  | Cart_is_empty
  | Cart_validation_failed "validation_error list"
  | Invalid_address
  | Failed_to_calculate_totals
  | Failed_to_create_order
  | Invalid_UUID_format
  | Failed_to_process_checkout

fun http_status :: "checkout_error \<Rightarrow> nat" where
  "http_status Request_body_required = 400"
| "http_status (Field_is_required f) = 400"
| "http_status Cart_is_empty = 400"
| "http_status (Cart_validation_failed es) = 400"
| "http_status Invalid_address = 400"
| "http_status Failed_to_calculate_totals = 500"
| "http_status Failed_to_create_order = 500"
| "http_status Invalid_UUID_format = 400"
| "http_status Failed_to_process_checkout = 500"

text \<open>
  The loop over the cart items: one \<open>OrderItem\<close> per cart item, and the stock of the
  item's variant decremented by the item's quantity, without a check. \<open>None\<close> is the
  exception raised on a missing variant row.
\<close>

fun create_order_items ::
  "uuid \<Rightarrow> variant list \<Rightarrow> cart_item list \<Rightarrow> (variant list \<times> order_item list) option" where
  "create_order_items oid vs [] = Some (vs, [])"
| "create_order_items oid vs (it # its) =
     (case find_index (\<lambda>v. v_id v = ci_variant_id it) vs of
        None \<Rightarrow> None
      | Some k \<Rightarrow>
          let v = vs ! k;
              order_item =
                \<lparr>oi_order_id = oid, oi_variant_id = ci_variant_id it,
                 oi_quantity = ci_quantity it, oi_price = ci_price it,
                 oi_total = ci_price it * of_int (ci_quantity it),
                 oi_product_name = (case v_product_name v of Some n \<Rightarrow> n | None \<Rightarrow> []),
                 oi_product_sku = (case v_product_sku v of Some n \<Rightarrow> n | None \<Rightarrow> []),
                 oi_variant_name = v_name v, oi_variant_sku = v_sku v\<rparr>
          in (case create_order_items oid (vs[k := v\<lparr>v_stock := v_stock v - ci_quantity it\<rparr>]) its of
                None \<Rightarrow> None
              | Some (vs', ois) \<Rightarrow> Some (vs', order_item # ois)))"

text \<open>
  The check constraints of the schema that the rows written by a checkout must satisfy
  when they are flushed: \<open>stock >= 0\<close> on the variants of the cart items,
  \<open>quantity > 0\<close> and \<open>price >= 0\<close> on the order items (the constraint \<open>total >= 0\<close> on
  the order is checked where the order is flushed).
\<close>

definition stock_ok :: "variant list \<Rightarrow> uuid \<Rightarrow> bool" where
  "stock_ok vs vid = (case find (\<lambda>v. v_id v = vid) vs of None \<Rightarrow> True | Some v \<Rightarrow> 0 \<le> v_stock v)"

definition constraints_ok :: "variant list \<Rightarrow> order_item list \<Rightarrow> bool" where
  "constraints_ok vs ois =
     (list_all (\<lambda>oi. stock_ok vs (oi_variant_id oi)) ois
      \<and> list_all (\<lambda>oi. 0 < oi_quantity oi \<and> 0 \<le> oi_price oi) ois)"

definition stock_rows_ok :: "variant list \<Rightarrow> order_item list \<Rightarrow> bool" where
  "stock_rows_ok vs ois = list_all (\<lambda>oi. stock_ok vs (oi_variant_id oi)) ois"

text \<open>
  What the loop asks of the stock: \<open>stock_of\<close> is the stock of the variant row with a
  given identifier, \<open>requested\<close> the total quantity the cart items ask of a variant.
  The stock is insufficient when some item's variant has less stock than the cart requests
  of it.
\<close>

definition stock_of :: "variant list \<Rightarrow> uuid \<Rightarrow> int option" where
  "stock_of vs vid = map_option v_stock (find (\<lambda>v. v_id v = vid) vs)"

definition requested :: "cart_item list \<Rightarrow> uuid \<Rightarrow> int" where
  "requested its vid = sum_list (map ci_quantity (filter (\<lambda>it. ci_variant_id it = vid) its))"

definition insufficient_stock :: "variant list \<Rightarrow> cart_item list \<Rightarrow> bool" where
  "insufficient_stock vs its =
     list_ex (\<lambda>it. case stock_of vs (ci_variant_id it) of
                     None \<Rightarrow> False
                   | Some n \<Rightarrow> n < requested its (ci_variant_id it)) its"

definition variants_present :: "variant list \<Rightarrow> cart_item list \<Rightarrow> bool" where
  "variants_present vs its = list_all (\<lambda>it. stock_of vs (ci_variant_id it) \<noteq> None) its"

text \<open>
  The decrements of the checkout loop leave the stock of some cart item's variant
  negative: the reservation of that item has failed.
\<close>

definition reservation_fails :: "store \<Rightarrow> nat \<Rightarrow> bool" where
  "reservation_fails st i =
     (case create_order_items (next_id st) (variants st) (c_items (carts st ! i)) of
        None \<Rightarrow> False
      | Some (vs', ois) \<Rightarrow> \<not> stock_rows_ok vs' ois)"

text \<open>
  The transaction of the checkout (the inner \<open>try\<close> block): any exception, and so any
  violated constraint, rolls the session back to the state the transaction started from.
\<close>

definition checkout_transaction ::
  "store \<Rightarrow> datetime \<Rightarrow> uuid \<Rightarrow> nat \<Rightarrow> address \<Rightarrow> address \<Rightarrow> checkout_request
     \<Rightarrow> store \<times> (checkout_error + order)" where
  "checkout_transaction st now user_id i shipping_address billing_address d =
     (case calculate_totals st now (Some user_id) None (Some (a_id shipping_address)) of
        (st1, Inl e) \<Rightarrow> (st1, Inl Failed_to_calculate_totals)
      | (st1, Inr t) \<Rightarrow>
          let ord =
                \<lparr>o_id = next_id st1, o_user_id = Some user_id, o_status = ''pending'',
                 o_payment_status = ''pending'', o_subtotal = t_subtotal t,
                 o_tax_amount = t_tax t, o_shipping_amount = t_shipping t,
                 o_discount_amount = t_discount t, o_total = t_total t,
                 o_shipping_address = a_fields shipping_address,
                 o_billing_address = a_fields billing_address,
                 o_payment_method = rq_payment_method d, o_notes = rq_notes d,
                 o_items = [], o_shipping_carrier = None, o_tracking_number = None,
                 o_shipped_at = None, o_delivered_at = None, o_cancellation_reason = None,
                 o_refund = None, o_admin_notes = None, o_updated_at = None\<rparr>
          in if o_total ord < 0 then (st1, Inl Failed_to_create_order)
             else
               (case create_order_items (o_id ord) (variants st1) (c_items (carts st1 ! i)) of
                  None \<Rightarrow> (st1, Inl Failed_to_create_order)
                | Some (vs', ois) \<Rightarrow>
                    let c' = (carts st1 ! i)\<lparr>c_status := Converted\<rparr>;
                        ord' = (if rq_payment_method d \<in> set [''credit_card'', ''paypal'']
                                then ord\<lparr>o_payment_status := ''captured'',
                                         o_status := ''confirmed''\<rparr>
                                else ord)
                                 \<lparr>o_items := ois\<rparr>
                    in if constraints_ok vs' ois
                       then (st1\<lparr>variants := vs', carts := (carts st1)[i := c'],
                                 orders := orders st1 @ [ord'],
                                 next_id := Suc (next_id st1)\<rparr>,
                             Inr ord')
                       else (st1, Inl Failed_to_create_order)))"

definition find_address :: "store \<Rightarrow> uuid \<Rightarrow> uuid \<Rightarrow> address option" where
  "find_address st aid user_id = find (\<lambda>a. a_id a = aid \<and> a_user_id a = user_id) (addresses st)"

definition checkout ::
  "store \<Rightarrow> datetime \<Rightarrow> uuid \<Rightarrow> checkout_request option \<Rightarrow> store \<times> (checkout_error + order)" where
  "checkout st now user_id data =
     (case data of
        None \<Rightarrow> (st, Inl Request_body_required)
      | Some d \<Rightarrow>
          if rq_shipping_address_id d = Missing
            then (st, Inl (Field_is_required ''shipping_address_id''))
          else if rq_billing_address_id d = Missing
            then (st, Inl (Field_is_required ''billing_address_id''))
          else if rq_payment_method d = []
            then (st, Inl (Field_is_required ''payment_method''))
          else
            (case get_or_create_cart st now (Some user_id) None of
               (st1, None) \<Rightarrow> (st1, Inl Cart_is_empty)
             | (st1, Some i) \<Rightarrow>
                 if is_empty (carts st1 ! i) then (st1, Inl Cart_is_empty)
                 else
                   (case validate_cart st1 now (Some user_id) None of
                      None \<Rightarrow> (st1, Inl Failed_to_process_checkout)
                    | Some (st2, errors, updated) \<Rightarrow>
                        if errors \<noteq> [] then (st2, Inl (Cart_validation_failed errors))
                        else
                          (case (rq_shipping_address_id d, rq_billing_address_id d) of
                             (Uuid sid, Uuid bid) \<Rightarrow>
                               (case (find_address st2 sid user_id, find_address st2 bid user_id) of
                                  (Some sa, Some ba) \<Rightarrow>
                                    checkout_transaction st2 now user_id i sa ba d
                                | _ \<Rightarrow> (st2, Inl Invalid_address))
                           | _ \<Rightarrow> (st2, Inl Invalid_UUID_format)))))"

subsection \<open>Order status changes: orders.py CancelOrder.post, admin.py AdminOrder.put, AdminOrderRefund.post\<close>

text \<open>
  The loop \<open>for item in order.items: if item.variant: item.variant.stock += item.quantity\<close>.
\<close>

fun restore_stock :: "variant list \<Rightarrow> order_item list \<Rightarrow> variant list" where
  "restore_stock vs [] = vs"
| "restore_stock vs (oi # ois) =
     restore_stock
       (case find_index (\<lambda>v. v_id v = oi_variant_id oi) vs of
          None \<Rightarrow> vs
        | Some k \<Rightarrow> vs[k := (vs ! k)\<lparr>v_stock := v_stock (vs ! k) + oi_quantity oi\<rparr>])
       ois"

datatype order_error =
    Admin_access_required
  | Order_not_found
  | Request_body_required_order
  | Invalid_order_status
  | Order_cannot_be_cancelled
  | Order_cannot_be_refunded
  | Failed_to_update_order

text \<open>The customer's cancellation; \<open>reason\<close> defaults to a fixed text.\<close>

definition cancel_order_post ::
  "store \<Rightarrow> datetime \<Rightarrow> uuid \<Rightarrow> uuid \<Rightarrow> string option \<Rightarrow> store \<times> (order_error + unit)" where
  "cancel_order_post st now user_id order_id reason =
     (case find_index (\<lambda>ord. o_id ord = order_id \<and> o_user_id ord = Some user_id) (orders st) of
        None \<Rightarrow> (st, Inl Order_not_found)
      | Some j \<Rightarrow>
          let ord = orders st ! j in
          if \<not> can_be_cancelled ord then (st, Inl Order_cannot_be_cancelled)
          else
            let r = (case reason of None \<Rightarrow> ''Customer requested cancellation'' | Some x \<Rightarrow> x);
                ord' = ord\<lparr>o_status := ''cancelled'',
                           o_cancellation_reason :=
                             (if r = [] then o_cancellation_reason ord else Some r)\<rparr>;
                vs' = restore_stock (variants st) (o_items ord)
            in if stock_rows_ok vs' (o_items ord)
               then (st\<lparr>variants := vs', orders := (orders st)[j := ord']\<rparr>, Inr ())
               else (st, Inl Failed_to_update_order))"

text \<open>The body of \<open>AdminOrder.put\<close>: a key that is absent is \<open>None\<close>.\<close>

record order_update =
  ou_status :: "string option"
  ou_tracking_number :: "string option"
  ou_shipping_carrier :: "string option"
  ou_notes :: "string option"

definition valid_statuses :: "string list" where
  "valid_statuses =
     [''pending'', ''confirmed'', ''processing'', ''shipped'', ''delivered'', ''cancelled'',
      ''refunded'']"

text \<open>
  The status part of \<open>AdminOrder.put\<close>: the new status is checked for membership in
  \<open>valid_statuses\<close> only, then assigned.
\<close>

definition put_status :: "datetime \<Rightarrow> order_update \<Rightarrow> string \<Rightarrow> variant list \<times> order \<Rightarrow> variant list \<times> order" where
  "put_status now data new_status vo =
     (let vs = fst vo; ord = snd vo; old_status = o_status ord;
          ord1 = ord\<lparr>o_status := new_status\<rparr>
      in if new_status = ''shipped'' \<and> old_status \<noteq> ''shipped''
           then (vs, ord1\<lparr>o_shipped_at := Some now,
                          o_tracking_number :=
                            (case ou_tracking_number data of None \<Rightarrow> o_tracking_number ord1
                             | Some x \<Rightarrow> Some x),
                          o_shipping_carrier :=
                            (case ou_shipping_carrier data of None \<Rightarrow> o_shipping_carrier ord1
                             | Some x \<Rightarrow> Some x)\<rparr>)
         else if new_status = ''delivered'' \<and> old_status \<noteq> ''delivered''
           then (vs, ord1\<lparr>o_delivered_at := Some now\<rparr>)
         else if new_status = ''cancelled''
           then (restore_stock vs (o_items ord1), ord1)
         else (vs, ord1))"

definition put_details :: "datetime \<Rightarrow> order_update \<Rightarrow> order \<Rightarrow> order" where
  "put_details now data ord =
     ord\<lparr>o_tracking_number :=
           (case ou_tracking_number data of None \<Rightarrow> o_tracking_number ord | Some x \<Rightarrow> Some x),
         o_shipping_carrier :=
           (case ou_shipping_carrier data of None \<Rightarrow> o_shipping_carrier ord | Some x \<Rightarrow> Some x),
         o_admin_notes :=
           (case ou_notes data of None \<Rightarrow> o_admin_notes ord | Some x \<Rightarrow> Some x),
         o_updated_at := Some now\<rparr>"

definition admin_order_put ::
  "store \<Rightarrow> datetime \<Rightarrow> bool \<Rightarrow> uuid \<Rightarrow> order_update option \<Rightarrow> store \<times> (order_error + order)" where
  "admin_order_put st now is_admin order_id data =
     (if \<not> is_admin then (st, Inl Admin_access_required)
      else
        (case find_index (\<lambda>ord. o_id ord = order_id) (orders st) of
           None \<Rightarrow> (st, Inl Order_not_found)
         | Some j \<Rightarrow>
             (case data of
                None \<Rightarrow> (st, Inl Request_body_required_order)
              | Some d \<Rightarrow>
                  if (case ou_status d of None \<Rightarrow> False | Some s \<Rightarrow> s \<notin> set valid_statuses)
                    then (st, Inl Invalid_order_status)
                  else
                    let vo = (case ou_status d of
                                None \<Rightarrow> (variants st, orders st ! j)
                              | Some s \<Rightarrow> put_status now d s (variants st, orders st ! j));
                        ord' = put_details now d (snd vo)
                    in if stock_rows_ok (fst vo) (o_items ord')
                       then (st\<lparr>variants := fst vo, orders := (orders st)[j := ord']\<rparr>, Inr ord')
                       else (st, Inl Failed_to_update_order))))"

definition admin_order_refund ::
  "store \<Rightarrow> datetime \<Rightarrow> bool \<Rightarrow> uuid \<Rightarrow> money option \<Rightarrow> string option
     \<Rightarrow> store \<times> (order_error + money)" where
  "admin_order_refund st now is_admin order_id amount reason =
     (if \<not> is_admin then (st, Inl Admin_access_required)
      else
        (case find_index (\<lambda>ord. o_id ord = order_id) (orders st) of
           None \<Rightarrow> (st, Inl Order_not_found)
         | Some j \<Rightarrow>
             let ord = orders st ! j in
             if \<not> can_be_refunded ord then (st, Inl Order_cannot_be_refunded)
             else
               let refund_amount = (case amount of None \<Rightarrow> o_total ord | Some x \<Rightarrow> x);
                   r = (case reason of None \<Rightarrow> ''Admin refund'' | Some x \<Rightarrow> x);
                   ord' = ord\<lparr>o_status := ''refunded'', o_payment_status := ''refunded'',
                              o_refund := Some (refund_amount, r)\<rparr>;
                   vs' = restore_stock (variants st) (o_items ord)
               in if stock_rows_ok vs' (o_items ord)
                  then (st\<lparr>variants := vs', orders := (orders st)[j := ord']\<rparr>,
                        Inr refund_amount)
                  else (st, Inl Failed_to_update_order)))"

section \<open>Example data\<close>

text \<open>
  A small shop: two variants with a stock of 5 each, user 42 with a converted cart and an
  active cart holding one mug, three coupons and one address. The other stores are
  variations of it.
\<close>

definition shirt :: variant where
  "shirt = \<lparr>v_id = 1, v_sku = ''TS-RED-M'', v_name = ''Red M'', v_price = 20, v_stock = 5,
            v_is_active = True, v_product_name = Some ''T-Shirt'', v_product_sku = Some ''TS''\<rparr>"

definition save10 :: coupon where
  "save10 = \<lparr>co_id = 7, co_code = ''SAVE10'', co_discount_type = ''percentage'',
              co_discount_value = 10, co_minimum_amount = Some 20, co_maximum_discount = None,
              co_usage_limit = None, co_usage_limit_per_user = 1, co_usage_count = 0,
              co_valid_from = None, co_valid_until = None, co_is_active = True,
              co_usages = []\<rparr>"

definition mug :: variant where
  "mug = \<lparr>v_id = 2, v_sku = ''MUG-1'', v_name = ''Mug'', v_price = 10, v_stock = 5,
          v_is_active = True, v_product_name = Some ''Mug'', v_product_sku = Some ''MUG''\<rparr>"

definition freeship :: coupon where
  "freeship = \<lparr>co_id = 8, co_code = ''FREESHIP'', co_discount_type = ''free_shipping'',
               co_discount_value = 0, co_minimum_amount = None, co_maximum_discount = None,
               co_usage_limit = None, co_usage_limit_per_user = 1, co_usage_count = 0,
               co_valid_from = None, co_valid_until = None, co_is_active = True,
               co_usages = []\<rparr>"

definition half :: coupon where
  "half = \<lparr>co_id = 9, co_code = ''HALF'', co_discount_type = ''percentage'',
           co_discount_value = 50, co_minimum_amount = None, co_maximum_discount = None,
           co_usage_limit = None, co_usage_limit_per_user = 1, co_usage_count = 0,
           co_valid_from = None, co_valid_until = None, co_is_active = True,
           co_usages = []\<rparr>"

definition old_cart :: cart where
  "old_cart = \<lparr>c_id = 8, c_user_id = Some 42, c_session_id = None, c_status = Converted,
               c_expires_at = Some 5000,
               c_items = [\<lparr>ci_id = 9, ci_variant_id = 1, ci_quantity = 1, ci_price = 20\<rparr>],
               c_metadata = None\<rparr>"

definition cart42 :: cart where
  "cart42 = \<lparr>c_id = 10, c_user_id = Some 42, c_session_id = None, c_status = Active,
             c_expires_at = Some 5000,
             c_items = [\<lparr>ci_id = 11, ci_variant_id = 2, ci_quantity = 1, ci_price = 10\<rparr>],
             c_metadata = None\<rparr>"

definition home :: address where
  "home = \<lparr>a_id = 30, a_user_id = 42,
           a_fields = (''1 Main St'', None, ''Springfield'', ''IL'', ''62701'', ''US'')\<rparr>"

definition shop :: store where
  "shop = \<lparr>variants = [shirt, mug], carts = [old_cart, cart42],
           coupons = [save10, freeship, half], addresses = [home], orders = [], next_id = 100\<rparr>"

definition req :: checkout_request where
  "req = \<lparr>rq_shipping_address_id = Uuid 30, rq_billing_address_id = Uuid 30,
          rq_payment_method = ''credit_card'', rq_notes = None\<rparr>"

definition order100 :: order where
  "order100 =
     \<lparr>o_id = 100, o_user_id = Some 42, o_status = ''confirmed'',
      o_payment_status = ''captured'', o_subtotal = 10, o_tax_amount = 4 / 5,
      o_shipping_amount = 999 / 100, o_discount_amount = 0, o_total = 2079 / 100,
      o_shipping_address = a_fields home, o_billing_address = a_fields home,
      o_payment_method = ''credit_card'', o_notes = None,
      o_items = [\<lparr>oi_order_id = 100, oi_variant_id = 2, oi_quantity = 1, oi_price = 10,
                  oi_total = 10, oi_product_name = ''Mug'', oi_product_sku = ''MUG'',
                  oi_variant_name = ''Mug'', oi_variant_sku = ''MUG-1''\<rparr>],
      o_shipping_carrier = None, o_tracking_number = None, o_shipped_at = None,
      o_delivered_at = None, o_cancellation_reason = None, o_refund = None,
      o_admin_notes = None, o_updated_at = None\<rparr>"

definition shop_after :: store where
  "shop_after =
     shop\<lparr>variants := [shirt, mug\<lparr>v_stock := 4\<rparr>],
          carts := [old_cart, cart42\<lparr>c_status := Converted\<rparr>],
          orders := [order100], next_id := 101\<rparr>"

definition shop_b :: store where
  "shop_b = shop\<lparr>carts := [old_cart,
       cart42\<lparr>c_items := [\<lparr>ci_id = 11, ci_variant_id = 2, ci_quantity = 1, ci_price = 10\<rparr>,
                           \<lparr>ci_id = 12, ci_variant_id = 1, ci_quantity = 9, ci_price = 20\<rparr>]\<rparr>]\<rparr>"

definition shop_c :: store where
  "shop_c = shop\<lparr>carts := [old_cart,
       cart42\<lparr>c_items := [\<lparr>ci_id = 11, ci_variant_id = 2, ci_quantity = 9, ci_price = 10\<rparr>,
                           \<lparr>ci_id = 12, ci_variant_id = 1, ci_quantity = 1, ci_price = 20\<rparr>]\<rparr>]\<rparr>"

definition shop_delivered :: store where
  "shop_delivered = shop_after\<lparr>orders := [order100\<lparr>o_status := ''delivered''\<rparr>]\<rparr>"

definition set_status :: "string \<Rightarrow> order_update" where
  "set_status s = \<lparr>ou_status = Some s, ou_tracking_number = None, ou_shipping_carrier = None,
                   ou_notes = None\<rparr>"



definition shop_n :: store where
  "shop_n = shop\<lparr>carts := [old_cart,
       cart42\<lparr>c_items := [\<lparr>ci_id = 12, ci_variant_id = 1, ci_quantity = 1, ci_price = 20\<rparr>],
              c_metadata := Some \<lparr>m_coupon_code = Some ''HALF'', m_coupon_id = Some 9,
                                   m_discount_amount = Some 50\<rparr>\<rparr>]\<rparr>"

section \<open>Inventory ledger\<close>





section \<open>Coupons\<close>

lemma calculate_discount_le: "calculate_discount c s \<le> s"
  by (simp add: calculate_discount_def Let_def)

lemma cap_then_clamp:
  "(if (if truthy_money m \<and> b > the m then the m else b) > s then s
    else (if truthy_money m \<and> b > the m then the m else b))
   = min (code_discount_cap m b) s"
  by (cases m) (auto simp: code_discount_cap_def min_def)

lemma calculate_discount_eq:
  "calculate_discount c s =
     min (code_discount_cap (co_maximum_discount c)
            (if co_discount_type c = ''percentage'' then s * co_discount_value c / 100
             else if co_discount_type c = ''fixed'' then co_discount_value c else 0)) s"
  unfolding calculate_discount_def Let_def cap_then_clamp by simp

text \<open>
  Claim C7, amended: for a percentage or fixed coupon, \<open>calculate_discount\<close> is the
  specified discount (base amount, capped at \<open>maximum_discount\<close>, then at the subtotal)
  whenever \<open>maximum_discount\<close> is unset or non-zero; a \<open>maximum_discount\<close> of zero is
  treated as unset. In every case the result does not exceed the subtotal.
\<close>

theorem calculate_discount_capped:
  "(co_discount_type c = ''percentage'' \<or> co_discount_type c = ''fixed'' \<longrightarrow>
      (co_maximum_discount c \<noteq> Some 0 \<longrightarrow> calculate_discount c s = spec_discount c s)
    \<and> (co_maximum_discount c = Some 0 \<longrightarrow>
          calculate_discount c s = spec_discount (c\<lparr>co_maximum_discount := None\<rparr>) s))
   \<and> calculate_discount c s \<le> s"
proof (cases "co_maximum_discount c")
  case None
  then show ?thesis
    by (simp add: calculate_discount_eq calculate_discount_le spec_discount_def
          code_discount_cap_def)
next
  case (Some m)
  then show ?thesis
    by (simp add: calculate_discount_eq calculate_discount_le spec_discount_def
          code_discount_cap_def)
qed

theorem calculate_discount_capped_witness:
  "(co_discount_type save10 = ''percentage'' \<or> co_discount_type save10 = ''fixed'')
   \<and> co_maximum_discount save10 \<noteq> Some 0
   \<and> co_maximum_discount (save10\<lparr>co_maximum_discount := Some 0\<rparr>) = Some 0
   \<and> calculate_discount save10 100 = 10
   \<and> spec_discount save10 100 = 10
   \<and> calculate_discount (save10\<lparr>co_maximum_discount := Some 0\<rparr>) 100 = 10
   \<and> calculate_discount save10 100 \<le> 100"
  using calculate_discount_capped [of save10 100]
    calculate_discount_capped [of "save10\<lparr>co_maximum_discount := Some 0\<rparr>" 100]
  by (simp add: save10_def spec_discount_def)

text \<open>
  Claim C7 as stated fails when \<open>maximum_discount\<close> is set to zero: the specified
  discount is capped at zero, the computed one is not capped by the maximum at all.
\<close>

theorem maximum_discount_zero_counterexample:
  "calculate_discount
     (save10\<lparr>co_discount_type := ''fixed'', co_discount_value := 5,
             co_maximum_discount := Some 0\<rparr>) 100 = 5
   \<and> spec_discount
     (save10\<lparr>co_discount_type := ''fixed'', co_discount_value := 5,
             co_maximum_discount := Some 0\<rparr>) 100 = 0"
  by (simp add: save10_def calculate_discount_def spec_discount_def)

text \<open>
  The checks of \<open>is_valid\<close> are independent: each error is reported exactly when its own
  condition fails, whatever the other checks say.
\<close>

lemma is_valid_errors_independent:
  "Coupon_is_not_active \<in> set (is_valid_errors c now t u) \<longleftrightarrow> \<not> co_is_active c"
  "Coupon_is_not_yet_valid \<in> set (is_valid_errors c now t u)
     \<longleftrightarrow> (\<exists>f. co_valid_from c = Some f \<and> now < f)"
  "Coupon_has_expired \<in> set (is_valid_errors c now t u)
     \<longleftrightarrow> (\<exists>e. co_valid_until c = Some e \<and> e < now)"
  "Coupon_usage_limit_exceeded \<in> set (is_valid_errors c now t u)
     \<longleftrightarrow> (\<exists>l. co_usage_limit c = Some l \<and> l \<noteq> 0 \<and> l \<le> co_usage_count c)"
  "Minimum_order_amount_required m \<in> set (is_valid_errors c now t u)
     \<longleftrightarrow> (\<exists>x. co_minimum_amount c = Some m \<and> m \<noteq> 0 \<and> t = Some x \<and> x \<noteq> 0 \<and> x < m)"
  "Already_used_maximum_times \<in> set (is_valid_errors c now t u)
     \<longleftrightarrow> (u \<noteq> None \<and> co_usage_limit_per_user c \<noteq> 0
          \<and> co_usage_limit_per_user c \<le> int (length (filter (\<lambda>x. x = u) (co_usages c))))"
  by (cases "co_valid_from c"; cases "co_valid_until c"; cases "co_usage_limit c";
      cases "co_minimum_amount c"; cases t;
      auto simp: is_valid_errors_def)+

text \<open>
  Claim C8 at a cart total of zero: \<open>SAVE10\<close> requires a minimum order amount of 20, yet
  \<open>is_valid\<close> reports no error for a total of 0, while a total of 10 is rejected with the
  minimum-amount error.
\<close>

theorem is_valid_zero_total_skips_minimum:
  "is_valid_errors save10 1000 (Some 0) (Some 42) = []
   \<and> is_valid save10 1000 (Some 0) (Some 42)
   \<and> is_valid_errors save10 1000 (Some 10) (Some 42) = [Minimum_order_amount_required 20]"
  by (simp add: is_valid_def is_valid_errors_def save10_def)

section \<open>Lookups\<close>

lemmas example_defs = shop_def req_def home_def cart42_def old_cart_def mug_def shirt_def
  save10_def freeship_def half_def

lemmas service_defs = get_or_create_cart_def find_or_create_def new_cart_def set_cart_def
  validate_cart_def calculate_totals_def cart_totals_def stored_discount_def
  calculate_shipping_def get_subtotal_def get_total_def get_total_quantity_def is_empty_def
  is_in_stock_def extend_expiration_def

lemmas checkout_defs = checkout_def checkout_transaction_def find_address_def
  constraints_ok_def stock_rows_ok_def stock_ok_def

lemma find_index_Some:
  "find_index P xs = Some i \<Longrightarrow> i < length xs \<and> P (xs ! i)"
  by (induction xs arbitrary: i) (auto split: if_splits)

lemma find_index_None: "find_index P xs = None \<longleftrightarrow> (\<forall>x\<in>set xs. \<not> P x)"
  by (induction xs) auto

lemma find_index_update_same:
  "find_index P xs = Some i \<Longrightarrow> P y \<Longrightarrow> find_index P (xs[i := y]) = Some i"
proof (induction xs arbitrary: i)
  case Nil then show ?case by simp
next
  case (Cons x xs)
  then show ?case by (cases i) (auto split: if_splits)
qed

lemma find_index_update_none:
  "find_index P xs = Some i \<Longrightarrow> length (filter P xs) \<le> 1 \<Longrightarrow> \<not> P y
     \<Longrightarrow> find_index P (xs[i := y]) = None"
proof (induction xs arbitrary: i)
  case Nil then show ?case by simp
next
  case (Cons x xs)
  show ?case
  proof (cases "P x")
    case True
    with Cons.prems have "i = 0" and "filter P xs = []" by auto
    then have "find_index P xs = None" by (simp add: find_index_None filter_empty_conv)
    with \<open>i = 0\<close> Cons.prems(3) show ?thesis by simp
  next
    case False
    with Cons.prems obtain k where k: "i = Suc k" "find_index P xs = Some k" by auto
    with Cons.prems False have "find_index P (xs[k := y]) = None"
      using Cons.IH [of k] by simp
    with k False show ?thesis by simp
  qed
qed

lemma get_or_create_cart_props:
  assumes "get_or_create_cart st now u s = (st1, r)"
  shows "r = Some i \<Longrightarrow> i < length (carts st1) \<and> c_status (carts st1 ! i) = Active"
    and "take (length (carts st)) (carts st1) = carts st"
    and "variants st1 = variants st" and "coupons st1 = coupons st"
    and "orders st1 = orders st" and "addresses st1 = addresses st"
  using assms
  by (auto simp: get_or_create_cart_def find_or_create_def new_cart_def nth_append
      split: option.splits if_splits dest: find_index_Some)

lemma goc_found:
  "find_index (\<lambda>c. c_user_id c = Some uid \<and> c_status c = Active) (carts st) = Some i
     \<Longrightarrow> get_or_create_cart st now (Some uid) s = (st, Some i)"
  by (simp add: get_or_create_cart_def find_or_create_def)

lemma goc_created:
  "find_index (\<lambda>c. c_user_id c = Some uid \<and> c_status c = Active) (carts st) = None
     \<Longrightarrow> get_or_create_cart st now (Some uid) s
         = (st\<lparr>carts := carts st @ [new_cart st now (Some uid) s],
               next_id := Suc (next_id st)\<rparr>, Some (length (carts st)))"
  by (simp add: get_or_create_cart_def find_or_create_def)

section \<open>Cart service: carts that are not active\<close>










section \<open>Checkout\<close>

lemma cart_totals_sum:
  "t_total (cart_totals c a)
     = t_subtotal (cart_totals c a) + t_tax (cart_totals c a) + t_shipping (cart_totals c a)
       - t_discount (cart_totals c a)"
  by (simp add: cart_totals_def Let_def)

lemma checkout_transaction_success:
  assumes f: "find_index (\<lambda>c. c_user_id c = Some uid \<and> c_status c = Active) (carts st) = Some i"
    and t: "checkout_transaction st now uid i sa ba d = (st', Inr ord)"
  shows "carts st' = (carts st)[i := (carts st ! i)\<lparr>c_status := Converted\<rparr>]"
    and "orders st' = orders st @ [ord]"
    and "o_total ord = o_subtotal ord + o_tax_amount ord + o_shipping_amount ord
           - o_discount_amount ord"
    and "0 \<le> o_total ord"
  using t cart_totals_sum [of "carts st ! i" "Some (a_id sa)"]
  by (auto simp: checkout_transaction_def calculate_totals_def goc_found [OF f] Let_def
      split: option.splits if_splits)

lemma checkout_transaction_failure:
  assumes f: "find_index (\<lambda>c. c_user_id c = Some uid \<and> c_status c = Active) (carts st) = Some i"
    and t: "checkout_transaction st now uid i sa ba d = (st', Inl e)"
  shows "st' = st \<and> e = Failed_to_create_order \<and> http_status e = 500"
  using t
  by (auto simp: checkout_transaction_def calculate_totals_def goc_found [OF f] Let_def
      split: option.splits if_splits)

lemma checkout_transaction_reservation_fails:
  assumes f: "find_index (\<lambda>c. c_user_id c = Some uid \<and> c_status c = Active) (carts st) = Some i"
    and r: "reservation_fails st i"
  shows "checkout_transaction st now uid i sa ba d = (st, Inl Failed_to_create_order)"
  using r
  by (auto simp: checkout_transaction_def calculate_totals_def goc_found [OF f] Let_def
      reservation_fails_def constraints_ok_def stock_rows_ok_def split: option.splits)

lemma checkout_transaction_variant_missing:
  assumes f: "find_index (\<lambda>c. c_user_id c = Some uid \<and> c_status c = Active) (carts st) = Some i"
    and r: "create_order_items (next_id st) (variants st) (c_items (carts st ! i)) = None"
  shows "checkout_transaction st now uid i sa ba d = (st, Inl Failed_to_create_order)"
  using r
  by (auto simp: checkout_transaction_def calculate_totals_def goc_found [OF f] Let_def)

lemma find_update:
  assumes "find_index (\<lambda>v. v_id v = a) vs = Some k" and "v_id y = a"
  shows "find (\<lambda>v. v_id v = b) (vs[k := y])
           = (if b = a then Some y else find (\<lambda>v. v_id v = b) vs)"
  using assms
proof (induction vs arbitrary: k)
  case Nil then show ?case by simp
next
  case (Cons x xs)
  then show ?case by (cases k) (auto split: if_splits)
qed

lemma find_index_find:
  "find_index P xs = Some k \<Longrightarrow> find P xs = Some (xs ! k)"
  by (induction xs arbitrary: k) (auto split: if_splits)

lemma find_index_none_find: "find_index P xs = None \<Longrightarrow> find P xs = None"
  by (induction xs) (auto split: if_splits)

lemma stock_of_update:
  assumes "find_index (\<lambda>v. v_id v = a) vs = Some k"
  shows "stock_of (vs[k := (vs ! k)\<lparr>v_stock := n\<rparr>]) b
           = (if b = a then Some n else stock_of vs b)"
proof -
  have "v_id (vs ! k) = a" using find_index_Some [OF assms] by simp
  then show ?thesis
    using find_update [OF assms, of "(vs ! k)\<lparr>v_stock := n\<rparr>" b] by (simp add: stock_of_def)
qed

text \<open>
  The loop leaves every variant with its stock minus the quantity requested of it, and
  it completes whenever the variants of all items exist.
\<close>

lemma create_order_items_stock:
  "create_order_items oid vs its = Some (vs', ois)
     \<Longrightarrow> stock_of vs' vid = map_option (\<lambda>n. n - requested its vid) (stock_of vs vid)
         \<and> map oi_variant_id ois = map ci_variant_id its"
proof (induction its arbitrary: vs vs' ois)
  case Nil
  then show ?case by (simp add: requested_def option.map_ident)
next
  case (Cons it its)
  from Cons.prems obtain k vs1 ois1 where
      k: "find_index (\<lambda>v. v_id v = ci_variant_id it) vs = Some k"
    and r: "create_order_items oid
              (vs[k := (vs ! k)\<lparr>v_stock := v_stock (vs ! k) - ci_quantity it\<rparr>]) its
              = Some (vs1, ois1)"
    and e: "vs' = vs1" "map oi_variant_id ois = ci_variant_id it # map oi_variant_id ois1"
    by (auto simp: Let_def split: option.splits)
  note ih = Cons.IH [OF r]
  have s: "stock_of vs (ci_variant_id it) = Some (v_stock (vs ! k))"
    using find_index_find [OF k] by (simp add: stock_of_def)
  show ?case
    using ih e s
    by (cases "stock_of vs vid") (auto simp: stock_of_update [OF k] requested_def)
qed

lemma create_order_items_defined:
  "variants_present vs its \<Longrightarrow> \<exists>vs' ois. create_order_items oid vs its = Some (vs', ois)"
proof (induction its arbitrary: vs)
  case Nil
  then show ?case by simp
next
  case (Cons it its)
  from Cons.prems obtain k where
    k: "find_index (\<lambda>v. v_id v = ci_variant_id it) vs = Some k"
    by (cases "find_index (\<lambda>v. v_id v = ci_variant_id it) vs")
       (auto simp: variants_present_def stock_of_def dest: find_index_none_find)
  have "variants_present
          (vs[k := (vs ! k)\<lparr>v_stock := v_stock (vs ! k) - ci_quantity it\<rparr>]) its"
    using Cons.prems by (auto simp: variants_present_def stock_of_update [OF k] list_all_iff)
  from Cons.IH [OF this] show ?case
    by (auto simp: k Let_def)
qed

lemma checkout_transaction_insufficient_stock:
  assumes f: "find_index (\<lambda>c. c_user_id c = Some uid \<and> c_status c = Active) (carts st) = Some i"
    and s: "insufficient_stock (variants st) (c_items (carts st ! i))"
  shows "checkout_transaction st now uid i sa ba d = (st, Inl Failed_to_create_order)"
proof (cases "create_order_items (next_id st) (variants st) (c_items (carts st ! i))")
  case None
  then show ?thesis by (rule checkout_transaction_variant_missing [OF f])
next
  case (Some r)
  then obtain vs' ois where
    c: "create_order_items (next_id st) (variants st) (c_items (carts st ! i)) = Some (vs', ois)"
    by (cases r) auto
  have st: "\<And>vid. stock_of vs' vid
              = map_option (\<lambda>n. n - requested (c_items (carts st ! i)) vid)
                  (stock_of (variants st) vid)"
    and m: "map oi_variant_id ois = map ci_variant_id (c_items (carts st ! i))"
    using create_order_items_stock [OF c] by auto
  from s obtain it where it: "it \<in> set (c_items (carts st ! i))"
    and n: "\<exists>n. stock_of (variants st) (ci_variant_id it) = Some n
              \<and> n < requested (c_items (carts st ! i)) (ci_variant_id it)"
    by (auto simp: insufficient_stock_def list_ex_iff split: option.splits)
  have "ci_variant_id it \<in> set (map oi_variant_id ois)" using it m by simp
  moreover have "\<not> stock_ok vs' (ci_variant_id it)"
    using n st [of "ci_variant_id it"]
    by (auto simp: stock_ok_def stock_of_def split: option.splits)
  ultimately have "\<not> stock_rows_ok vs' ois"
    by (auto simp: stock_rows_ok_def list_all_iff)
  then have "reservation_fails st i" by (simp add: reservation_fails_def c)
  then show ?thesis by (rule checkout_transaction_reservation_fails [OF f])
qed

text \<open>
  Claim C1, amended: in the checkout transaction of a user's active cart, when the stock
  of some item's variant is smaller than the quantity the cart requests of it (so that
  the unchecked decrements of the order-item loop leave that stock negative), the whole
  transaction rolls back: the database is exactly as before (the decrements already made
  are undone, no order or order item is visible, the cart is still active with its
  items), and the response is the generic error ``Failed to create order'' (HTTP 500).
  More generally every failing transaction leaves the database unchanged and answers
  with that same error.
\<close>

theorem checkout_transaction_rolls_back:
  assumes "find_index (\<lambda>c. c_user_id c = Some uid \<and> c_status c = Active) (carts st) = Some i"
  shows "(insufficient_stock (variants st) (c_items (carts st ! i)) \<longrightarrow>
            checkout_transaction st now uid i sa ba d = (st, Inl Failed_to_create_order))
       \<and> (\<forall>st' e. checkout_transaction st now uid i sa ba d = (st', Inl e) \<longrightarrow>
            st' = st \<and> e = Failed_to_create_order \<and> http_status e = 500)"
  using checkout_transaction_insufficient_stock [OF assms]
    checkout_transaction_failure [OF assms]
  by blast

theorem checkout_transaction_rolls_back_witness:
  "find_index (\<lambda>c. c_user_id c = Some 42 \<and> c_status c = Active) (carts shop_b) = Some 1
   \<and> insufficient_stock (variants shop_b) (c_items (carts shop_b ! 1))
   \<and> checkout_transaction shop_b 1000 42 1 home home req = (shop_b, Inl Failed_to_create_order)
   \<and> c_status (carts shop_b ! 1) = Active \<and> orders shop_b = []"
  using checkout_transaction_rolls_back
          [where st = shop_b and uid = 42 and i = 1 and now = 1000 and sa = home
             and ba = home and d = req]
  by (simp add: insufficient_stock_def stock_of_def requested_def shop_b_def example_defs)

text \<open>
  Claim C1 as stated fails: whether the second item of the cart (the shirt, in
  \<open>shop_b\<close>) or the first one (the mug, in \<open>shop_c\<close>) is short of stock, the response is
  the same generic error, which names no item; the source has no \<open>InsufficientStock\<close>
  error.
\<close>

theorem checkout_error_names_no_item_counterexample:
  "stock_of (variants shop_b) 1 = Some 5 \<and> requested (c_items (carts shop_b ! 1)) 1 = 9
   \<and> stock_of (variants shop_b) 2 = Some 5 \<and> requested (c_items (carts shop_b ! 1)) 2 = 1
   \<and> snd (checkout_transaction shop_b 1000 42 1 home home req) = Inl Failed_to_create_order
   \<and> stock_of (variants shop_c) 1 = Some 5 \<and> requested (c_items (carts shop_c ! 1)) 1 = 1
   \<and> stock_of (variants shop_c) 2 = Some 5 \<and> requested (c_items (carts shop_c ! 1)) 2 = 9
   \<and> snd (checkout_transaction shop_c 1000 42 1 home home req) = Inl Failed_to_create_order"
  by (simp add: checkout_defs service_defs stock_of_def requested_def shop_b_def shop_c_def
      example_defs Let_def)

lemma validate_cart_found:
  assumes f: "find_index (\<lambda>c. c_user_id c = Some uid \<and> c_status c = Active) (carts st) = Some i"
    and v: "validate_cart st now (Some uid) s = Some (st2, errors, updated)"
  shows "\<exists>its. st2 = st\<lparr>carts := (carts st)[i := (carts st ! i)\<lparr>c_items := its\<rparr>]\<rparr>"
proof (cases "updated = []")
  case True
  with v have "st2 = st"
    by (auto simp: validate_cart_def goc_found [OF f] split: option.splits)
  then have "st2 = st\<lparr>carts := (carts st)[i := (carts st ! i)\<lparr>c_items := c_items (carts st ! i)\<rparr>]\<rparr>"
    by simp
  then show ?thesis by blast
next
  case False
  with v show ?thesis
    by (auto simp: validate_cart_def goc_found [OF f] set_cart_def split: option.splits)
qed

lemma checkout_success:
  assumes c: "checkout st now uid data = (st', Inr ord)"
  shows "\<exists>i y. find_index (\<lambda>c. c_user_id c = Some uid \<and> c_status c = Active) (carts st) = Some i
           \<and> carts st' = (carts st)[i := y] \<and> c_status y = Converted
           \<and> orders st' = orders st @ [ord]
           \<and> o_total ord = o_subtotal ord + o_tax_amount ord + o_shipping_amount ord
                 - o_discount_amount ord
           \<and> 0 \<le> o_total ord"
proof (cases "find_index (\<lambda>c. c_user_id c = Some uid \<and> c_status c = Active) (carts st)")
  case None
  have "is_empty (new_cart st now (Some uid) None)"
    by (simp add: is_empty_def new_cart_def)
  with c show ?thesis
    by (auto simp: checkout_def goc_created [OF None] split: option.splits if_splits)
next
  case (Some i)
  from c obtain d st2 errors updated sa ba where
      v: "validate_cart st now (Some uid) None = Some (st2, errors, updated)"
    and t: "checkout_transaction st2 now uid i sa ba d = (st', Inr ord)"
    by (auto simp: checkout_def goc_found [OF Some]
        split: option.splits if_splits uuid_field.splits prod.splits)
  from validate_cart_found [OF Some v] obtain its where
    st2: "st2 = st\<lparr>carts := (carts st)[i := (carts st ! i)\<lparr>c_items := its\<rparr>]\<rparr>" by blast
  have i: "i < length (carts st)" and P: "c_user_id (carts st ! i) = Some uid"
      "c_status (carts st ! i) = Active"
    using find_index_Some [OF Some] by auto
  have f2: "find_index (\<lambda>c. c_user_id c = Some uid \<and> c_status c = Active) (carts st2) = Some i"
    using find_index_update_same [OF Some, of "(carts st ! i)\<lparr>c_items := its\<rparr>"] P
    by (simp add: st2)
  note r = checkout_transaction_success [OF f2 t]
  have "carts st' = (carts st)[i := (carts st ! i)\<lparr>c_items := its, c_status := Converted\<rparr>]"
    using r(1) i by (simp add: st2)
  moreover have "orders st' = orders st @ [ord]" using r(2) by (simp add: st2)
  ultimately show ?thesis using Some r(3,4) by auto
qed

lemma checkout_shop: "checkout shop 1000 42 (Some req) = (shop_after, Inr order100)"
  by (simp add: checkout_defs service_defs example_defs shop_after_def order100_def Let_def)




lemma checkout_request_present:
  assumes "checkout st now uid data = (st', Inr ord)"
  shows "\<exists>d. data = Some d \<and> rq_shipping_address_id d \<noteq> Missing
           \<and> rq_billing_address_id d \<noteq> Missing \<and> rq_payment_method d \<noteq> []"
  using assms by (auto simp: checkout_def split: option.splits if_splits)

lemma checkout_without_active_cart:
  assumes "find_index (\<lambda>c. c_user_id c = Some uid \<and> c_status c = Active) (carts st) = None"
    and "rq_shipping_address_id d \<noteq> Missing" and "rq_billing_address_id d \<noteq> Missing"
    and "rq_payment_method d \<noteq> []"
  shows "checkout st now uid (Some d)
           = (st\<lparr>carts := carts st @ [new_cart st now (Some uid) None],
                 next_id := Suc (next_id st)\<rparr>, Inl Cart_is_empty)"
  using assms(2-4)
  by (simp add: checkout_def goc_created [OF assms(1)] is_empty_def new_cart_def)

text \<open>
  Claim C5, amended: when a checkout has created an order from the user's only active
  cart, a second checkout by the same user creates no order; it fails with the error
  ``Cart is empty'' (HTTP 400), because the converted cart is no longer found and
  \<open>get_or_create_cart\<close> creates a new, empty active cart, which the second call leaves
  behind.
\<close>

theorem second_checkout_cart_is_empty:
  assumes "checkout st now uid data = (st1, Inr ord)"
    and "length (user_active_carts st uid) \<le> 1"
  shows "snd (checkout st1 now' uid data) = Inl Cart_is_empty
       \<and> http_status Cart_is_empty = 400
       \<and> orders (fst (checkout st1 now' uid data)) = orders st @ [ord]
       \<and> carts (fst (checkout st1 now' uid data))
           = carts st1 @ [new_cart st1 now' (Some uid) None]"
proof -
  from checkout_success [OF assms(1)] obtain i y where
      f: "find_index (\<lambda>c. c_user_id c = Some uid \<and> c_status c = Active) (carts st) = Some i"
    and c1: "carts st1 = (carts st)[i := y]" and y: "c_status y = Converted"
    and o1: "orders st1 = orders st @ [ord]"
    by blast
  have "find_index (\<lambda>c. c_user_id c = Some uid \<and> c_status c = Active) (carts st1) = None"
    using find_index_update_none [OF f, of y] assms(2) y
    by (simp add: c1 user_active_carts_def)
  moreover from checkout_request_present [OF assms(1)] obtain d where
    "data = Some d" "rq_shipping_address_id d \<noteq> Missing"
    "rq_billing_address_id d \<noteq> Missing" "rq_payment_method d \<noteq> []"
    by blast
  ultimately show ?thesis
    using o1 by (simp add: checkout_without_active_cart)
qed

theorem second_checkout_cart_is_empty_witness:
  "checkout shop 1000 42 (Some req) = (shop_after, Inr order100)
   \<and> length (user_active_carts shop 42) \<le> 1
   \<and> snd (checkout shop_after 1001 42 (Some req)) = Inl Cart_is_empty
   \<and> orders (fst (checkout shop_after 1001 42 (Some req))) = [order100]"
  using second_checkout_cart_is_empty [OF checkout_shop, of 1001] checkout_shop
  by (simp add: user_active_carts_def shop_after_def example_defs)

text \<open>
  Claim C5 as stated fails in the error of the second call: it is ``Cart is empty'', and
  the call has created a third cart; the source has no \<open>CartLockedError\<close>.
\<close>

theorem second_checkout_counterexample:
  "snd (checkout shop 1000 42 (Some req)) = Inr order100
   \<and> snd (checkout (fst (checkout shop 1000 42 (Some req))) 1001 42 (Some req))
       = Inl Cart_is_empty
   \<and> length (carts (fst (checkout (fst (checkout shop 1000 42 (Some req))) 1001 42 (Some req))))
       = 3"
  by (simp add: checkout_shop)
     (simp add: checkout_defs service_defs shop_after_def example_defs Let_def)


section \<open>Order status changes\<close>

text \<open>
  Claim C6 on a delivered order (\<open>order100\<close>, whose payment is captured):
  \<open>AdminOrder.put\<close> accepts the status \<open>pending\<close> and stores it, and it accepts
  \<open>cancelled\<close> and puts the delivered item back into the stock. The customer's
  cancellation of the same order is rejected by \<open>can_be_cancelled\<close>, and on the order as
  checkout left it (\<open>confirmed\<close>) the refund endpoint is rejected by \<open>can_be_refunded\<close>
  while \<open>AdminOrder.put\<close> accepts \<open>refunded\<close> and releases no stock.
\<close>

theorem admin_put_accepts_any_transition:
  "snd (admin_order_put shop_delivered 2000 True 100 (Some (set_status ''pending'')))
     = Inr (order100\<lparr>o_status := ''pending'', o_updated_at := Some 2000\<rparr>)
   \<and> orders (fst (admin_order_put shop_delivered 2000 True 100 (Some (set_status ''pending''))))
     = [order100\<lparr>o_status := ''pending'', o_updated_at := Some 2000\<rparr>]
   \<and> snd (admin_order_put shop_delivered 2000 True 100 (Some (set_status ''cancelled'')))
     = Inr (order100\<lparr>o_status := ''cancelled'', o_updated_at := Some 2000\<rparr>)
   \<and> variants (fst (admin_order_put shop_delivered 2000 True 100
                       (Some (set_status ''cancelled''))))
     = [shirt, mug]
   \<and> cancel_order_post shop_delivered 2000 42 100 None
     = (shop_delivered, Inl Order_cannot_be_cancelled)
   \<and> admin_order_refund shop_after 2000 True 100 None None
     = (shop_after, Inl Order_cannot_be_refunded)
   \<and> snd (admin_order_put shop_after 2000 True 100 (Some (set_status ''refunded'')))
     = Inr (order100\<lparr>o_status := ''refunded'', o_updated_at := Some 2000\<rparr>)
   \<and> variants (fst (admin_order_put shop_after 2000 True 100 (Some (set_status ''refunded''))))
     = variants shop_after"
  by (simp add: admin_order_put_def put_status_def put_details_def valid_statuses_def
      cancel_order_post_def admin_order_refund_def can_be_cancelled_def can_be_refunded_def
      stock_rows_ok_def stock_ok_def shop_delivered_def set_status_def shop_after_def
      order100_def example_defs Let_def)

section \<open>Shipping\<close>

lemma calculate_shipping_step:
  "calculate_shipping c a = (if get_subtotal c < 50 then 999 / 100 else 0)"
  by (simp add: calculate_shipping_def Let_def not_le)

lemma calculate_shipping_ignores_coupon:
  "calculate_shipping (c\<lparr>c_metadata := m\<rparr>) a = calculate_shipping c a"
  by (simp add: calculate_shipping_def get_subtotal_def)



section \<open>The discount stored on the cart\<close>
















section \<open>Failing checkouts\<close>

lemma checkout_transaction_failure_frame:
  assumes "checkout_transaction st now uid i sa ba d = (st', Inl e)"
  shows "orders st' = orders st \<and> variants st' = variants st
       \<and> take (length (carts st)) (carts st') = carts st"
proof (cases "get_or_create_cart st now (Some uid) None")
  case (Pair st1 r)
  note p = get_or_create_cart_props [OF Pair]
  have "st' = st1"
    using assms
    by (auto simp: checkout_transaction_def calculate_totals_def Pair Let_def
        split: option.splits if_splits)
  then show ?thesis using p by simp
qed

lemma validate_cart_frame:
  assumes "validate_cart st now u s = Some (st2, errors, updated)"
  shows "orders st2 = orders st \<and> variants st2 = variants st"
proof (cases "get_or_create_cart st now u s")
  case (Pair st1 r)
  note p = get_or_create_cart_props [OF Pair]
  show ?thesis
    using assms p(3,5)
    by (auto simp: validate_cart_def Pair set_cart_def split: option.splits if_splits)
qed

text \<open>
  A checkout that answers with an error, whichever it is, has created no order and has
  changed no stock.
\<close>

lemma checkout_failure_keeps_orders_and_stock:
  assumes "checkout st now uid data = (st', Inl e)"
  shows "orders st' = orders st \<and> variants st' = variants st"
proof (cases data)
  case None
  with assms show ?thesis by (simp add: checkout_def)
next
  case (Some d)
  show ?thesis
  proof (cases "get_or_create_cart st now (Some uid) None")
    case (Pair st1 r)
    note p = get_or_create_cart_props [OF Pair]
    show ?thesis
    proof (cases "validate_cart st1 now (Some uid) None")
      case None
      with assms Some Pair p show ?thesis
        by (auto simp: checkout_def split: option.splits if_splits)
    next
      case v: (Some res)
      obtain st2 errors updated where res: "res = (st2, errors, updated)"
        by (cases res) auto
      note q = validate_cart_frame [OF v [unfolded res]]
      have "st' = st \<or> st' = st1 \<or> st' = st2
            \<or> (\<exists>i sa ba. checkout_transaction st2 now uid i sa ba d = (st', Inl e))"
        using assms Some Pair v res
        by (auto simp: checkout_def split: option.splits if_splits uuid_field.splits)
      then show ?thesis
        using p q checkout_transaction_failure_frame [of st2 now uid _ _ _ d st' e]
        by auto
    qed
  qed
qed


text \<open>
  A total that would be negative creates no order: in \<open>shop_n\<close> the cart holds one shirt
  (subtotal 20) and a stored discount of 50, the total would be \<open>- 22.41\<close>, and the
  checkout is rolled back.
\<close>

lemma negative_total_creates_no_order:
  "t_total (cart_totals (carts shop_n ! 1) (Some 30)) = - (2241 / 100)
   \<and> checkout shop_n 1000 42 (Some req) = (shop_n, Inl Failed_to_create_order)"
  by (simp add: checkout_defs service_defs shop_n_def example_defs Let_def)


end
